theory Spec2Isabelle
  imports Main
begin

section \<open>The tracing example: a command-line agent runner\<close>

text \<open>
  The program is \<^verbatim>\<open>examples/tracing/main.py\<close>. It is glue over four libraries
  (OpenTelemetry auto-instrumentation, argparse, the agents runtime and its MCP client).
  The embedding keeps the script's own control flow and makes every library call an
  event of a trace. What a library call answers is read from a \<open>world\<close>: the script is
  a function of the world, and a theorem about every world is a theorem about every
  answer the libraries can give.
\<close>

subsection \<open>Data\<close>

text \<open>
  Exceptions the library calls can raise; the script catches none. \<open>CancelledError\<close>
  is what an await raises when the task is cancelled. \<open>KeyboardInterrupt\<close> is an
  interrupt from the keyboard (Ctrl-C). Inside \<^verbatim>\<open>asyncio.run\<close> an interrupt
  cancels the task, so that the \<^verbatim>\<open>async with\<close> is left through its exit, and
  \<^verbatim>\<open>asyncio.run\<close> raises \<^verbatim>\<open>KeyboardInterrupt\<close> in its place; the model
  writes such an interrupt as \<open>KeyboardInterrupt\<close> from the call that was waiting.
\<close>

datatype exn = Exception string | CancelledError | KeyboardInterrupt

text \<open>
  The positional argument \<open>prompt\<close> has \<^verbatim>\<open>type=argparse.FileType('r')\<close>,
  \<^verbatim>\<open>nargs='?'\<close> and \<^verbatim>\<open>default=sys.stdin\<close>: the parsed value is an open stream,
  standard input or a file opened by its path.
\<close>

datatype stream = Stdin | File string

text \<open>
  What \<^verbatim>\<open>parse_args\<close> finds on the command line. argparse leaves the process by itself
  in two cases: \<^verbatim>\<open>-h/--help\<close> prints the help text and exits with status 0; a command
  line it rejects (an unknown flag, a flag without its value, a prompt path that
  \<^verbatim>\<open>FileType\<close> cannot open) prints the usage and exits with status 2. Otherwise each
  of the three arguments is given or not.
\<close>

datatype argparse_exit = HelpRequested | UsageError

datatype argv_outcome =
    ArgExit argparse_exit
  | ArgGiven (prompt_path: "string option") (model_flag: "string option")
      (mcp_url_flag: "string option")

record namespace =
  prompt :: stream
  model :: "string option"
  mcp_url :: "string option"

text \<open>
  \<^verbatim>\<open>MCPServerStreamableHttp({"url": mcp_url, "timeout": 300.0}, cache_tools_list=True)\<close>:
  the timeout is in seconds.
\<close>

record server =
  url :: string
  timeout :: nat
  cache_tools_list :: bool

text \<open>
  \<^verbatim>\<open>util.to_function_tool(tool, server, False)\<close>: the adapted tool is kept as the
  call that made it, the descriptor, the server it is bound to and the
  \<^verbatim>\<open>convert_schemas_to_strict\<close> argument.
\<close>

record 'd function_tool =
  descriptor :: 'd
  bound_server :: server
  strict :: bool

record ('d, 'm) agent =
  name :: string
  agent_model :: 'm
  tools :: "'d function_tool list"

record run_config =
  workflow_name :: string

datatype ('d, 'm) event =
    Import string
  | TelemetryInitialize
  | ParseArgs
  | Read stream
  | Print string
  | Connect server
  | ListTools server
  | Cleanup server
  | GetModel bool "string option"
  | RunnerRun "('d, 'm) agent" string run_config

text \<open>
  The answers of the libraries. \<open>aenter\<close> and \<open>aexit\<close> are the two halves of the
  \<^verbatim>\<open>async with\<close> on the server: \<open>aenter\<close> opens the connection and answers the
  exception if that fails; \<open>aexit\<close> is handed the exception the body raised, if any,
  closes the connection and returns \<^verbatim>\<open>None\<close>, or raises itself.
  \<open>flush_stdout\<close> says whether the interpreter, when the process ends, can flush
  what was written to standard output.
\<close>

record ('d, 'm) world =
  initialize :: "exn option"
  environ :: "string \<rightharpoonup> string"
  argv :: argv_outcome
  read :: "stream \<Rightarrow> exn + string"
  aenter :: "server \<Rightarrow> exn option"
  list_tools :: "server \<Rightarrow> exn + 'd list"
  aexit :: "server \<Rightarrow> exn option \<Rightarrow> exn option"
  get_model :: "bool \<Rightarrow> string option \<Rightarrow> exn + 'm"
  runner_run :: "('d, 'm) agent \<Rightarrow> string \<Rightarrow> run_config \<Rightarrow> exn + string"
  flush_stdout :: bool

datatype outcome = Returned | SystemExit argparse_exit | Uncaught exn

subsection \<open>Python helpers\<close>

text \<open>\<^verbatim>\<open>not mcp_url\<close>: \<^verbatim>\<open>None\<close> and the empty string are falsy.\<close>

definition falsy :: "string option \<Rightarrow> bool" where
  "falsy s = (case s of None \<Rightarrow> True | Some u \<Rightarrow> u = [])"

text \<open>An f-string field \<^verbatim>\<open>{x}\<close> of a value that is a string or \<^verbatim>\<open>None\<close>.\<close>

definition fstr :: "string option \<Rightarrow> string" where
  "fstr s = (case s of None \<Rightarrow> ''None'' | Some u \<Rightarrow> u)"

text \<open>
  The exit status of the process, from whether standard output could be flushed at
  the end and how the script ended. An uncaught \<^verbatim>\<open>KeyboardInterrupt\<close> makes the
  interpreter end itself by the interrupt signal, status 130 to a shell, whatever
  else happened. Otherwise a failed flush of standard output gives 120. Otherwise
  the status is 0 when the script ran to its end, 1 when an exception reached the top
  level (the interpreter prints the traceback), and what argparse passed to
  \<^verbatim>\<open>sys.exit\<close>: 0 after the help text, 2 after a usage error. The script itself
  never calls \<^verbatim>\<open>sys.exit\<close>.
\<close>

fun exit_status :: "bool \<Rightarrow> outcome \<Rightarrow> nat" where
  "exit_status flushed (Uncaught KeyboardInterrupt) = 130"
| "exit_status False out = 120"
| "exit_status True Returned = 0"
| "exit_status True (SystemExit HelpRequested) = 0"
| "exit_status True (SystemExit UsageError) = 2"
| "exit_status True (Uncaught e) = 1"

subsection \<open>The script\<close>

text \<open>
  \<^verbatim>\<open>
  async def run_agent(prompt, model_name, tools):
      model = OpenAIProvider(use_responses=False).get_model(model_name)
      agent = Agent(name="Assistant", model=model, tools=tools)
      result = await Runner.run(starting_agent=agent, input=prompt,
                                run_config=RunConfig(workflow_name="envoy-ai-gateway"))
      print(result.final_output)
  \<close>
\<close>

definition run_agent ::
  "('d, 'm) world \<Rightarrow> string \<Rightarrow> string option \<Rightarrow> 'd function_tool list
    \<Rightarrow> ('d, 'm) event list \<times> (exn + unit)" where
  "run_agent w p model_name ts =
     (case get_model w False model_name of
        Inl e \<Rightarrow> ([GetModel False model_name], Inl e)
      | Inr m \<Rightarrow>
          (let a = \<lparr>name = ''Assistant'', agent_model = m, tools = ts\<rparr>;
               c = \<lparr>workflow_name = ''envoy-ai-gateway''\<rparr>
           in case runner_run w a p c of
                Inl e \<Rightarrow> ([GetModel False model_name, RunnerRun a p c], Inl e)
              | Inr final_output \<Rightarrow>
                  ([GetModel False model_name, RunnerRun a p c, Print final_output], Inr ())))"

definition to_function_tool :: "'d \<Rightarrow> server \<Rightarrow> bool \<Rightarrow> 'd function_tool" where
  "to_function_tool d s b = \<lparr>descriptor = d, bound_server = s, strict = b\<rparr>"

definition streamable_http :: "string \<Rightarrow> server" where
  "streamable_http u = \<lparr>url = u, timeout = 300, cache_tools_list = True\<rparr>"

text \<open>
  The body of the \<^verbatim>\<open>async with\<close>:
  \<^verbatim>\<open>
      tools = await server.list_tools()
      util = MCPUtil()
      tools = [util.to_function_tool(tool, server, False) for tool in tools]
      await run_agent(prompt, model_name, tools)
  \<close>
\<close>

definition with_body ::
  "('d, 'm) world \<Rightarrow> string \<Rightarrow> string option \<Rightarrow> server
    \<Rightarrow> ('d, 'm) event list \<times> (exn + unit)" where
  "with_body w p model_name s =
     (case list_tools w s of
        Inl e \<Rightarrow> ([ListTools s], Inl e)
      | Inr ds \<Rightarrow>
          (let (tr, r) = run_agent w p model_name (map (\<lambda>d. to_function_tool d s False) ds)
           in (ListTools s # tr, r)))"

text \<open>
  \<^verbatim>\<open>
  async def main(prompt, model_name, mcp_url):
      if not mcp_url:
          await run_agent(prompt, model_name, [])
          return
      async with MCPServerStreamableHttp(...) as server:
          ...
  \<close>
  The \<^verbatim>\<open>async with\<close> statement: when entering raises, the body and the exit are
  skipped; once entering has returned, the exit is called when the body is left,
  whether it returned or raised. An exception of the exit replaces the body's.
\<close>

definition main ::
  "('d, 'm) world \<Rightarrow> string \<Rightarrow> string option \<Rightarrow> string option
    \<Rightarrow> ('d, 'm) event list \<times> (exn + unit)" where
  "main w p model_name u =
     (if falsy u then run_agent w p model_name []
      else
        (let s = streamable_http (the u)
         in case aenter w s of
              Some e \<Rightarrow> ([Connect s], Inl e)
            | None \<Rightarrow>
                (let (tr, r) = with_body w p model_name s;
                     raised = (case r of Inl e \<Rightarrow> Some e | Inr _ \<Rightarrow> None)
                 in case aexit w s raised of
                      Some e' \<Rightarrow> (Connect s # tr @ [Cleanup s], Inl e')
                    | None \<Rightarrow> (Connect s # tr @ [Cleanup s], r))))"

text \<open>
  \<^verbatim>\<open>
  parser.add_argument("prompt", default=sys.stdin, type=argparse.FileType('r'), nargs='?')
  parser.add_argument("--model", default=os.getenv("CHAT_MODEL"), type=str)
  parser.add_argument("--mcp-url", default=os.getenv("MCP_URL"), type=str)
  args = parser.parse_args()
  \<close>
  \<^verbatim>\<open>FileType('r')\<close> answers \<^verbatim>\<open>sys.stdin\<close> for the argument \<^verbatim>\<open>-\<close> and opens
  any other argument as a path.
\<close>

definition parse_args :: "('d, 'm) world \<Rightarrow> argparse_exit + namespace" where
  "parse_args w =
     (case argv w of
        ArgExit x \<Rightarrow> Inl x
      | ArgGiven pp mf uf \<Rightarrow>
          Inr \<lparr>prompt = (case pp of
                           None \<Rightarrow> Stdin
                         | Some path \<Rightarrow> if path = ''-'' then Stdin else File path),
               model = (case mf of None \<Rightarrow> environ w ''CHAT_MODEL'' | Some m \<Rightarrow> Some m),
               mcp_url = (case uf of None \<Rightarrow> environ w ''MCP_URL'' | Some u \<Rightarrow> Some u)\<rparr>)"

definition telemetry_module :: string where
  "telemetry_module = ''opentelemetry.instrumentation''"

definition library_modules :: "string list" where
  "library_modules = [''argparse'', ''asyncio'', ''os'', ''sys'', ''agents'', ''agents.mcp'']"

text \<open>
  The module, top to bottom, run as \<^verbatim>\<open>__main__\<close>: the instrumentation is initialised
  before the other imports; then the arguments are parsed, the prompt is read, three
  lines are printed and \<^verbatim>\<open>asyncio.run(main(prompt, args.model, args.mcp_url))\<close>
  runs the coroutine to its end.
\<close>

definition script :: "('d, 'm) world \<Rightarrow> ('d, 'm) event list \<times> outcome" where
  "script w =
     (let startup = [Import telemetry_module, TelemetryInitialize]
      in case initialize w of
           Some e \<Rightarrow> (startup, Uncaught e)
         | None \<Rightarrow>
             (let parsing = startup @ map Import library_modules @ [ParseArgs]
              in case parse_args w of
                   Inl x \<Rightarrow> (parsing, SystemExit x)
                 | Inr args \<Rightarrow>
                     (case read w (prompt args) of
                        Inl e \<Rightarrow> (parsing @ [Read (prompt args)], Uncaught e)
                      | Inr p \<Rightarrow>
                          (let (tr, r) = main w p (model args) (mcp_url args);
                               echo = [Print (''Prompt: '' @ p),
                                       Print (''Using model: '' @ fstr (model args)),
                                       Print (''Using MCP URL: '' @ fstr (mcp_url args))]
                           in (parsing @ [Read (prompt args)] @ echo @ tr,
                               (case r of Inl e \<Rightarrow> Uncaught e | Inr _ \<Rightarrow> Returned))))))"

subsection \<open>Observations on a trace\<close>

definition is_cleanup :: "('d, 'm) event \<Rightarrow> bool" where
  "is_cleanup ev = (case ev of Cleanup _ \<Rightarrow> True | _ \<Rightarrow> False)"

definition is_connect :: "('d, 'm) event \<Rightarrow> bool" where
  "is_connect ev = (case ev of Connect _ \<Rightarrow> True | _ \<Rightarrow> False)"

text \<open>A call into the agent runtime: building the model or running the agent.\<close>

definition is_agent_call :: "('d, 'm) event \<Rightarrow> bool" where
  "is_agent_call ev = (case ev of GetModel _ _ \<Rightarrow> True | RunnerRun _ _ _ \<Rightarrow> True | _ \<Rightarrow> False)"

text \<open>A call to the tool server.\<close>

definition is_server_call :: "('d, 'm) event \<Rightarrow> bool" where
  "is_server_call ev =
     (case ev of Connect _ \<Rightarrow> True | ListTools _ \<Rightarrow> True | Cleanup _ \<Rightarrow> True | _ \<Rightarrow> False)"


text \<open>The import of a library other than the instrumentation's own module.\<close>

definition is_library_import :: "('d, 'm) event \<Rightarrow> bool" where
  "is_library_import ev = (case ev of Import n \<Rightarrow> n \<noteq> telemetry_module | _ \<Rightarrow> False)"

subsection \<open>A run in which nothing fails\<close>




subsection \<open>Sample worlds\<close>

text \<open>
  A world to run the script on: the prompt file \<^verbatim>\<open>prompt.txt\<close> holds \<^verbatim>\<open>Hello\<close>,
  the command line gives the file and \<^verbatim>\<open>--model test-model\<close>, the environment is
  empty, every library call succeeds and standard output can be flushed.
\<close>

definition demo_world :: "(string, string) world" where
  "demo_world =
     \<lparr>initialize = None,
      environ = Map.empty,
      argv = ArgGiven (Some ''prompt.txt'') (Some ''test-model'') None,
      read = (\<lambda>s. if s = File ''prompt.txt'' then Inr ''Hello'' else Inr []),
      aenter = (\<lambda>_. None),
      list_tools = (\<lambda>_. Inr [''add'', ''echo'']),
      aexit = (\<lambda>_ _. None),
      get_model = (\<lambda>_ n. Inr (fstr n)),
      runner_run = (\<lambda>_ _ _. Inr ''Hi there''),
      flush_stdout = True\<rparr>"

definition demo_url :: string where
  "demo_url = ''http://localhost:1975/mcp''"

section \<open>Properties\<close>

subsection \<open>The shape of the traces\<close>

lemma run_agent_no_server_call:
  "\<forall>ev \<in> set (fst (run_agent w p m ts)). \<not> is_server_call ev"
  by (simp add: run_agent_def is_server_call_def Let_def split: sum.splits)

lemma run_agent_no_cleanup:
  "filter is_cleanup (fst (run_agent w p m ts)) = []"
  by (simp add: run_agent_def is_cleanup_def Let_def split: sum.splits)

lemma with_body_no_cleanup:
  "filter is_cleanup (fst (with_body w p m s)) = []"
  using run_agent_no_cleanup [of w p m]
  by (simp add: with_body_def is_cleanup_def Let_def split: sum.splits prod.splits)
    (metis fst_conv)

lemma main_url:
  assumes "\<not> falsy u" and "aenter w (streamable_http (the u)) = None"
  shows "fst (main w p m u) =
      Connect (streamable_http (the u)) # fst (with_body w p m (streamable_http (the u)))
        @ [Cleanup (streamable_http (the u))]"
  using assms by (simp add: main_def Let_def split: prod.splits option.splits)

subsection \<open>Release of the connection\<close>

text \<open>
  Claim C1. Whenever the connection to the tool server has been opened, it is released
  exactly once, and the release is the last thing \<open>main\<close> does before it returns
  or raises. The world is arbitrary, so the statement covers every way the body of the
  \<^verbatim>\<open>async with\<close> can be left: the agent run completing, an exception from the tool
  listing or from the agent run, and a cancellation at any of the awaits.
\<close>

theorem connection_released_once:
  assumes "\<not> falsy u" and "aenter w (streamable_http (the u)) = None"
  shows "filter is_cleanup (fst (main w p m u)) = [Cleanup (streamable_http (the u))]
       \<and> last (fst (main w p m u)) = Cleanup (streamable_http (the u))"
  using with_body_no_cleanup [of w p m "streamable_http (the u)"]
  by (simp add: main_url [OF assms] is_cleanup_def)

theorem connection_released_once_witness:
  "\<not> falsy (Some demo_url)
   \<and> aenter (demo_world\<lparr>list_tools := (\<lambda>_. Inl CancelledError)\<rparr>)
        (streamable_http (the (Some demo_url))) = None
   \<and> filter is_cleanup
        (fst (main (demo_world\<lparr>list_tools := (\<lambda>_. Inl CancelledError)\<rparr>)
           ''Hello'' None (Some demo_url)))
      = [Cleanup (streamable_http (the (Some demo_url)))]
   \<and> last (fst (main (demo_world\<lparr>list_tools := (\<lambda>_. Inl CancelledError)\<rparr>)
           ''Hello'' None (Some demo_url)))
      = Cleanup (streamable_http (the (Some demo_url)))"
  using connection_released_once
    [of "Some demo_url" "demo_world\<lparr>list_tools := (\<lambda>_. Inl CancelledError)\<rparr>" "''Hello''" None]
  by (simp add: falsy_def demo_url_def demo_world_def)

lemma with_body_listed:
  assumes "list_tools w s = Inr ds"
  shows "with_body w p m s =
     (ListTools s # fst (run_agent w p m (map (\<lambda>d. to_function_tool d s False) ds)),
      snd (run_agent w p m (map (\<lambda>d. to_function_tool d s False) ds)))"
  using assms by (simp add: with_body_def split: prod.splits)

lemma run_agent_no_connect:
  "filter is_connect (fst (run_agent w p m ts)) = []"
  by (simp add: run_agent_def is_connect_def Let_def split: sum.splits)

lemma run_agent_runs:
  assumes "get_model w False m = Inr mdl"
  shows "RunnerRun \<lparr>name = ''Assistant'', agent_model = mdl, tools = ts\<rparr> p
           \<lparr>workflow_name = ''envoy-ai-gateway''\<rparr> \<in> set (fst (run_agent w p m ts))"
  using assms by (simp add: run_agent_def Let_def split: sum.splits)

lemma run_agent_tools:
  assumes "RunnerRun a q c \<in> set (fst (run_agent w p m ts))"
  shows "tools a = ts \<and> q = p \<and> name a = ''Assistant'' \<and> workflow_name c = ''envoy-ai-gateway''"
  using assms by (auto simp add: run_agent_def Let_def split: sum.splits)

subsection \<open>The two branches of \<open>main\<close>\<close>

text \<open>
  Claim C2. With a non-empty URL, a connection that opens and a tool listing that
  answers the descriptors \<open>ds\<close>, \<open>run_agent\<close> is called with one adapted tool for
  each descriptor, in the order listed: as many tools as descriptors, each bound to the
  server of the one connection that was opened and made with
  \<^verbatim>\<open>convert_schemas_to_strict=False\<close>. Every agent that is run carries these tools,
  and once the model is built the agent is run.
\<close>

theorem agent_runs_with_adapted_tools:
  assumes "\<not> falsy u" and "s = streamable_http (the u)"
    and "aenter w s = None" and "list_tools w s = Inr ds"
    and "ts = map (\<lambda>d. to_function_tool d s False) ds"
  shows "length ts = length ds
       \<and> map descriptor ts = ds
       \<and> (\<forall>t \<in> set ts. bound_server t = s \<and> \<not> strict t)
       \<and> filter is_connect (fst (main w p m u)) = [Connect s]
       \<and> fst (main w p m u) = [Connect s, ListTools s] @ fst (run_agent w p m ts) @ [Cleanup s]
       \<and> (\<forall>a q c. RunnerRun a q c \<in> set (fst (main w p m u)) \<longrightarrow> tools a = ts)
       \<and> (\<forall>mdl. get_model w False m = Inr mdl \<longrightarrow>
            RunnerRun \<lparr>name = ''Assistant'', agent_model = mdl, tools = ts\<rparr> p
              \<lparr>workflow_name = ''envoy-ai-gateway''\<rparr> \<in> set (fst (main w p m u)))"
proof -
  have tr: "fst (main w p m u) = [Connect s, ListTools s] @ fst (run_agent w p m ts) @ [Cleanup s]"
    using assms main_url [of u w p m] with_body_listed [of w s ds p m] by simp
  have len: "length ts = length ds" and descs: "map descriptor ts = ds"
    using assms(5) by (simp_all add: to_function_tool_def comp_def)
  have bound: "\<forall>t \<in> set ts. bound_server t = s \<and> \<not> strict t"
    using assms(5) by (auto simp add: to_function_tool_def)
  have one: "filter is_connect (fst (main w p m u)) = [Connect s]"
    using run_agent_no_connect [of w p m ts] by (simp add: tr is_connect_def)
  have only: "\<forall>a q c. RunnerRun a q c \<in> set (fst (main w p m u)) \<longrightarrow> tools a = ts"
    using run_agent_tools [of _ _ _ w p m ts] by (auto simp add: tr)
  have run: "\<forall>mdl. get_model w False m = Inr mdl \<longrightarrow>
            RunnerRun \<lparr>name = ''Assistant'', agent_model = mdl, tools = ts\<rparr> p
              \<lparr>workflow_name = ''envoy-ai-gateway''\<rparr> \<in> set (fst (main w p m u))"
    using run_agent_runs [of w m _ ts p] by (simp add: tr)
  from len descs bound one tr only run show ?thesis by blast
qed

theorem agent_runs_with_adapted_tools_witness:
  "\<not> falsy (Some demo_url)
   \<and> aenter demo_world (streamable_http demo_url) = None
   \<and> list_tools demo_world (streamable_http demo_url) = Inr [''add'', ''echo'']
   \<and> get_model demo_world False (Some ''test-model'') = Inr ''test-model''
   \<and> RunnerRun
        \<lparr>name = ''Assistant'', agent_model = ''test-model'',
         tools = [to_function_tool ''add'' (streamable_http demo_url) False,
                  to_function_tool ''echo'' (streamable_http demo_url) False]\<rparr>
        ''Hello'' \<lparr>workflow_name = ''envoy-ai-gateway''\<rparr>
      \<in> set (fst (main demo_world ''Hello'' (Some ''test-model'') (Some demo_url)))"
proof -
  have h1: "\<not> falsy (Some demo_url)"
    by (simp add: falsy_def demo_url_def)
  have h2: "streamable_http demo_url = streamable_http (the (Some demo_url))"
    by simp
  have h3: "aenter demo_world (streamable_http demo_url) = None"
    and h4: "list_tools demo_world (streamable_http demo_url) = Inr [''add'', ''echo'']"
    and mdl: "get_model demo_world False (Some ''test-model'') = Inr ''test-model''"
    by (simp_all add: demo_world_def fstr_def)
  have h5: "[to_function_tool ''add'' (streamable_http demo_url) False,
             to_function_tool ''echo'' (streamable_http demo_url) False]
            = map (\<lambda>d. to_function_tool d (streamable_http demo_url) False) [''add'', ''echo'']"
    by simp
  from agent_runs_with_adapted_tools
    [OF h1 h2 h3 h4 h5, of "''Hello''" "Some ''test-model''"] h1 h3 h4 mdl
  show ?thesis by blast
qed

text \<open>
  Claim C3. When the tool-server URL is \<^verbatim>\<open>None\<close> or the empty string, \<open>main\<close> is
  just \<open>run_agent\<close> with the empty tool list: the trace has no call to a tool
  server (no connection is opened, listed or closed), and every agent that is run has
  no tools.
\<close>

theorem no_url_runs_without_tools:
  assumes "falsy u"
  shows "main w p m u = run_agent w p m []
       \<and> (\<forall>ev \<in> set (fst (main w p m u)). \<not> is_server_call ev)
       \<and> (\<forall>a q c. RunnerRun a q c \<in> set (fst (main w p m u)) \<longrightarrow> tools a = [])
       \<and> (\<forall>mdl. get_model w False m = Inr mdl \<longrightarrow>
            RunnerRun \<lparr>name = ''Assistant'', agent_model = mdl, tools = []\<rparr> p
              \<lparr>workflow_name = ''envoy-ai-gateway''\<rparr> \<in> set (fst (main w p m u)))"
proof -
  have eq: "main w p m u = run_agent w p m []"
    using assms by (simp add: main_def)
  show ?thesis
    using run_agent_no_server_call [of w p m "[]"] run_agent_tools [of _ _ _ w p m "[]"]
      run_agent_runs [of w m _ "[]" p]
    by (simp add: eq)
qed

theorem no_url_runs_without_tools_witness:
  "falsy None \<and> falsy (Some [])
   \<and> main demo_world ''Hello'' (Some ''test-model'') None
       = run_agent demo_world ''Hello'' (Some ''test-model'') []
   \<and> main demo_world ''Hello'' (Some ''test-model'') (Some [])
       = run_agent demo_world ''Hello'' (Some ''test-model'') []
   \<and> RunnerRun \<lparr>name = ''Assistant'', agent_model = ''test-model'', tools = []\<rparr> ''Hello''
        \<lparr>workflow_name = ''envoy-ai-gateway''\<rparr>
      \<in> set (fst (main demo_world ''Hello'' (Some ''test-model'') None))"
proof -
  have absent: "falsy None" and empty: "falsy (Some [])"
    by (simp_all add: falsy_def)
  have mdl: "get_model demo_world False (Some ''test-model'') = Inr ''test-model''"
    by (simp add: demo_world_def fstr_def)
  from no_url_runs_without_tools [OF absent, of demo_world "''Hello''" "Some ''test-model''"]
    no_url_runs_without_tools [OF empty, of demo_world "''Hello''" "Some ''test-model''"]
    absent empty mdl
  show ?thesis by blast
qed

lemma exit_status_Uncaught:
  "exit_status flushed (Uncaught e) \<noteq> 0"
  by (cases flushed; cases e) simp_all

lemma script_started:
  assumes "initialize w = None" and "parse_args w = Inr args" and "read w (prompt args) = Inr p"
  shows "fst (script w) =
           [Import telemetry_module, TelemetryInitialize] @ map Import library_modules
             @ [ParseArgs, Read (prompt args), Print (''Prompt: '' @ p),
                Print (''Using model: '' @ fstr (model args)),
                Print (''Using MCP URL: '' @ fstr (mcp_url args))]
             @ fst (main w p (model args) (mcp_url args))"
    and "snd (script w) =
           (case snd (main w p (model args) (mcp_url args)) of
              Inl e \<Rightarrow> Uncaught e | Inr _ \<Rightarrow> Returned)"
  using assms by (simp_all add: script_def Let_def split: prod.splits)

subsection \<open>Failures of the tool server\<close>

text \<open>
  Claim C4. When the URL is non-empty and opening the connection raises \<open>e\<close>, the
  script ends with \<open>e\<close> uncaught, so with a non-zero exit status; the connection was
  attempted once, and the trace has no call into the agent runtime.
\<close>

theorem connect_failure_is_fatal:
  assumes "initialize w = None" and "parse_args w = Inr args"
    and "read w (prompt args) = Inr p"
    and "\<not> falsy (mcp_url args)"
    and "aenter w (streamable_http (the (mcp_url args))) = Some e"
  shows "snd (script w) = Uncaught e
       \<and> exit_status (flush_stdout w) (snd (script w)) \<noteq> 0
       \<and> (\<forall>ev \<in> set (fst (script w)). \<not> is_agent_call ev)
       \<and> filter is_connect (fst (script w)) = [Connect (streamable_http (the (mcp_url args)))]"
proof -
  have m: "main w p (model args) (mcp_url args)
             = ([Connect (streamable_http (the (mcp_url args)))], Inl e)"
    using assms(4,5) by (simp add: main_def Let_def)
  show ?thesis
    using script_started [OF assms(1-3)]
    by (simp add: m is_agent_call_def is_connect_def exit_status_Uncaught)
qed

theorem connect_failure_is_fatal_witness:
  "initialize (demo_world\<lparr>argv := ArgGiven None None (Some demo_url),
                           aenter := (\<lambda>_. Some (Exception ''connection refused''))\<rparr>) = None
   \<and> parse_args (demo_world\<lparr>argv := ArgGiven None None (Some demo_url),
                           aenter := (\<lambda>_. Some (Exception ''connection refused''))\<rparr>)
       = Inr \<lparr>prompt = Stdin, model = None, mcp_url = Some demo_url\<rparr>
   \<and> \<not> falsy (Some demo_url)
   \<and> snd (script (demo_world\<lparr>argv := ArgGiven None None (Some demo_url),
                        aenter := (\<lambda>_. Some (Exception ''connection refused''))\<rparr>))
       = Uncaught (Exception ''connection refused'')
   \<and> exit_status
        (flush_stdout (demo_world\<lparr>argv := ArgGiven None None (Some demo_url),
                        aenter := (\<lambda>_. Some (Exception ''connection refused''))\<rparr>))
        (snd (script (demo_world\<lparr>argv := ArgGiven None None (Some demo_url),
                        aenter := (\<lambda>_. Some (Exception ''connection refused''))\<rparr>))) \<noteq> 0
   \<and> filter is_connect (fst (script (demo_world\<lparr>argv := ArgGiven None None (Some demo_url),
                        aenter := (\<lambda>_. Some (Exception ''connection refused''))\<rparr>)))
       = [Connect (streamable_http demo_url)]"
proof -
  let ?w = "demo_world\<lparr>argv := ArgGiven None None (Some demo_url),
                        aenter := (\<lambda>_. Some (Exception ''connection refused''))\<rparr>"
  let ?args = "\<lparr>prompt = Stdin, model = None, mcp_url = Some demo_url\<rparr>"
  have h1: "initialize ?w = None"
    by (simp add: demo_world_def)
  have h2: "parse_args ?w = Inr ?args"
    by (simp add: demo_world_def parse_args_def)
  have h3: "read ?w (prompt ?args) = Inr []"
    by (simp add: demo_world_def)
  have h4: "\<not> falsy (mcp_url ?args)"
    by (simp add: falsy_def demo_url_def)
  have h5: "aenter ?w (streamable_http (the (mcp_url ?args))) = Some (Exception ''connection refused'')"
    by simp
  from connect_failure_is_fatal [OF h1 h2 h3 h4 h5] h1 h2 h4
  show ?thesis by (simp add: exit_status_Uncaught)
qed

text \<open>
  Claim C9. When the connection has been opened and the tool listing raises \<open>e\<close>,
  \<open>main\<close> does three things and no more: it connects, asks for the tools and releases
  the connection. No call into the agent runtime is made, and \<open>main\<close> raises \<open>e\<close>,
  or the exception of the release if the release itself fails.
\<close>

theorem list_tools_failure_skips_agent:
  assumes "\<not> falsy u" and "s = streamable_http (the u)"
    and "aenter w s = None" and "list_tools w s = Inl e"
  shows "fst (main w p m u) = [Connect s, ListTools s, Cleanup s]
       \<and> (\<forall>ev \<in> set (fst (main w p m u)). \<not> is_agent_call ev)
       \<and> snd (main w p m u) = Inl (case aexit w s (Some e) of None \<Rightarrow> e | Some e' \<Rightarrow> e')"
  using assms
  by (simp add: main_def with_body_def Let_def is_agent_call_def split: option.splits)

theorem list_tools_failure_skips_agent_witness:
  "\<not> falsy (Some demo_url)
   \<and> aenter (demo_world\<lparr>list_tools := (\<lambda>_. Inl (Exception ''timed out''))\<rparr>)
        (streamable_http demo_url) = None
   \<and> main (demo_world\<lparr>list_tools := (\<lambda>_. Inl (Exception ''timed out''))\<rparr>)
        ''Hello'' (Some ''test-model'') (Some demo_url)
      = ([Connect (streamable_http demo_url), ListTools (streamable_http demo_url),
          Cleanup (streamable_http demo_url)], Inl (Exception ''timed out''))"
proof -
  let ?w = "demo_world\<lparr>list_tools := (\<lambda>_. Inl (Exception ''timed out''))\<rparr>"
  have h1: "\<not> falsy (Some demo_url)"
    by (simp add: falsy_def demo_url_def)
  have h2: "streamable_http demo_url = streamable_http (the (Some demo_url))"
    by simp
  have h3: "aenter ?w (streamable_http demo_url) = None"
    and h4: "list_tools ?w (streamable_http demo_url) = Inl (Exception ''timed out'')"
    and x: "aexit ?w (streamable_http demo_url) (Some (Exception ''timed out'')) = None"
    by (simp_all add: demo_world_def)
  from list_tools_failure_skips_agent [OF h1 h2 h3 h4, of "''Hello''" "Some ''test-model''"] h1 h3 x
  show ?thesis by (simp add: prod_eq_iff)
qed

lemma run_agent_no_initialize:
  "TelemetryInitialize \<notin> set (fst (run_agent w p m ts))"
  by (simp add: run_agent_def Let_def split: sum.splits)

lemma main_no_initialize:
  "TelemetryInitialize \<notin> set (fst (main w p m u))"
proof (cases "falsy u")
  case True
  then show ?thesis
    by (simp add: main_def run_agent_no_initialize)
next
  case False
  have body: "TelemetryInitialize \<notin> set (fst (with_body w p m s))" for s
    using run_agent_no_initialize [of w p m]
    by (simp add: with_body_def case_prod_beta split: sum.splits)
  show ?thesis
  proof (cases "aenter w (streamable_http (the u))")
    case None
    then show ?thesis
      using False body by (simp add: main_url)
  next
    case (Some e)
    then show ?thesis
      using False by (simp add: main_def Let_def)
  qed
qed

lemma script_shape:
  "\<exists>post. fst (script w) = Import telemetry_module # TelemetryInitialize # post
     \<and> TelemetryInitialize \<notin> set post"
  using main_no_initialize [of w]
  by (auto simp add: script_def Let_def case_prod_beta split: option.splits sum.splits)

subsection \<open>Telemetry comes first\<close>

text \<open>
  Claim C5. In every run of the script the instrumentation is initialised at most once,
  and every call into the agent runtime (building the model, running the agent), every
  call to the tool server (connect, list, release) and every import of another library
  has the initialisation strictly before it in the trace.
\<close>

theorem telemetry_initialized_first:
  "count_list (fst (script w)) TelemetryInitialize \<le> 1
   \<and> (\<forall>i < length (fst (script w)).
        is_agent_call (fst (script w) ! i) \<or> is_server_call (fst (script w) ! i)
          \<or> is_library_import (fst (script w) ! i)
        \<longrightarrow> (\<exists>j < i. fst (script w) ! j = TelemetryInitialize))"
proof -
  obtain post where tr: "fst (script w) = Import telemetry_module # TelemetryInitialize # post"
    and post: "TelemetryInitialize \<notin> set post"
    using script_shape by blast
  have once: "count_list (fst (script w)) TelemetryInitialize \<le> 1"
    using post by (simp add: tr count_list_0_iff)
  have first: "\<exists>j < i. fst (script w) ! j = TelemetryInitialize"
    if "i < length (fst (script w))"
      and "is_agent_call (fst (script w) ! i) \<or> is_server_call (fst (script w) ! i)
          \<or> is_library_import (fst (script w) ! i)" for i
  proof (cases i)
    case 0
    with that(2) show ?thesis
      by (simp add: tr is_agent_call_def is_server_call_def is_library_import_def)
  next
    case (Suc k)
    show ?thesis
    proof (cases k)
      case 0
      with Suc that(2) show ?thesis
        by (simp add: tr is_agent_call_def is_server_call_def is_library_import_def)
    next
      case (Suc l)
      with \<open>i = Suc k\<close> have "1 < i" and "fst (script w) ! 1 = TelemetryInitialize"
        by (simp_all add: tr)
      then show ?thesis by blast
    qed
  qed
  from once first show ?thesis by blast
qed

theorem telemetry_initialized_first_witness:
  "13 < length (fst (script (demo_world\<lparr>argv := ArgGiven None None (Some demo_url)\<rparr>)))
   \<and> is_server_call (fst (script (demo_world\<lparr>argv := ArgGiven None None (Some demo_url)\<rparr>)) ! 13)
   \<and> (\<exists>j < 13. fst (script (demo_world\<lparr>argv := ArgGiven None None (Some demo_url)\<rparr>)) ! j
         = TelemetryInitialize)"
proof -
  let ?w = "demo_world\<lparr>argv := ArgGiven None None (Some demo_url)\<rparr>"
  have tr: "fst (script ?w) =
      [Import telemetry_module, TelemetryInitialize] @ map Import library_modules
        @ [ParseArgs, Read Stdin, Print ''Prompt: '', Print ''Using model: None'',
           Print (''Using MCP URL: '' @ demo_url), Connect (streamable_http demo_url),
           ListTools (streamable_http demo_url)]
        @ fst (run_agent ?w [] None (map (\<lambda>d. to_function_tool d (streamable_http demo_url) False) [''add'', ''echo'']))
        @ [Cleanup (streamable_http demo_url)]"
    by (simp add: script_def demo_world_def parse_args_def main_def with_body_def falsy_def
        demo_url_def fstr_def Let_def split: prod.splits)
  have len: "13 < length (fst (script ?w))"
    and srv: "is_server_call (fst (script ?w) ! 13)"
    by (simp_all add: tr library_modules_def is_server_call_def)
  from telemetry_initialized_first [of ?w] len srv
  show ?thesis by blast
qed

subsection \<open>Configuration\<close>

text \<open>
  Claim C6. When argparse accepts the command line, the model name is the value of
  \<^verbatim>\<open>--model\<close> if the flag is given, else the value of the environment variable
  \<^verbatim>\<open>CHAT_MODEL\<close>, else \<^verbatim>\<open>None\<close>; the tool-server URL is the value of
  \<^verbatim>\<open>--mcp-url\<close> if the flag is given, else the value of \<^verbatim>\<open>MCP_URL\<close>, else
  \<^verbatim>\<open>None\<close>.
\<close>

theorem configuration_precedence:
  assumes "argv w = ArgGiven pp mf uf"
  shows "\<exists>args. parse_args w = Inr args
       \<and> (\<forall>f. mf = Some f \<longrightarrow> model args = Some f)
       \<and> (mf = None \<longrightarrow> model args = environ w ''CHAT_MODEL'')
       \<and> (mf = None \<and> ''CHAT_MODEL'' \<notin> dom (environ w) \<longrightarrow> model args = None)
       \<and> (\<forall>f. uf = Some f \<longrightarrow> mcp_url args = Some f)
       \<and> (uf = None \<longrightarrow> mcp_url args = environ w ''MCP_URL'')
       \<and> (uf = None \<and> ''MCP_URL'' \<notin> dom (environ w) \<longrightarrow> mcp_url args = None)"
  using assms by (auto simp add: parse_args_def)

theorem configuration_precedence_witness:
  "argv (demo_world\<lparr>environ := [''CHAT_MODEL'' \<mapsto> ''qwen3:4b'', ''MCP_URL'' \<mapsto> demo_url]\<rparr>)
     = ArgGiven (Some ''prompt.txt'') (Some ''test-model'') None
   \<and> (\<exists>args. parse_args (demo_world\<lparr>environ := [''CHAT_MODEL'' \<mapsto> ''qwen3:4b'', ''MCP_URL'' \<mapsto> demo_url]\<rparr>)
          = Inr args
        \<and> model args = Some ''test-model'' \<and> mcp_url args = Some demo_url)"
proof -
  let ?w = "demo_world\<lparr>environ := [''CHAT_MODEL'' \<mapsto> ''qwen3:4b'', ''MCP_URL'' \<mapsto> demo_url]\<rparr>"
  have h: "argv ?w = ArgGiven (Some ''prompt.txt'') (Some ''test-model'') None"
    by (simp add: demo_world_def)
  have env: "environ ?w ''MCP_URL'' = Some demo_url"
    by simp
  from configuration_precedence [OF h] h env
  show ?thesis by auto
qed

subsection \<open>Standard output\<close>

















subsection \<open>Exit status\<close>




lemma run_agent_first:
  "\<exists>rest. fst (run_agent w p m ts) = GetModel False m # rest
     \<and> (\<forall>b n. GetModel b n \<notin> set rest)"
  by (simp add: run_agent_def Let_def split: sum.splits)

lemma main_agent_calls:
  "(\<exists>ev \<in> set (fst (main w p m u)). is_agent_call ev) \<longleftrightarrow>
     falsy u \<or> (aenter w (streamable_http (the u)) = None
                 \<and> (\<exists>ds. list_tools w (streamable_http (the u)) = Inr ds))"
  "(\<exists>ev \<in> set (fst (main w p m u)). is_agent_call ev) \<longrightarrow>
     GetModel False m \<in> set (fst (main w p m u))"
  "GetModel b n \<in> set (fst (main w p m u)) \<longrightarrow> b = False \<and> n = m"
proof -
  let ?s = "streamable_http (the u)"
  consider (none) "falsy u"
    | (refused) e where "\<not> falsy u" "aenter w ?s = Some e"
    | (unlisted) e where "\<not> falsy u" "aenter w ?s = None" "list_tools w ?s = Inl e"
    | (listed) ds where "\<not> falsy u" "aenter w ?s = None" "list_tools w ?s = Inr ds"
    by (cases "aenter w ?s"; cases "list_tools w ?s") auto
  then have "((\<exists>ev \<in> set (fst (main w p m u)). is_agent_call ev) \<longleftrightarrow>
       falsy u \<or> (aenter w ?s = None \<and> (\<exists>ds. list_tools w ?s = Inr ds)))
     \<and> ((\<exists>ev \<in> set (fst (main w p m u)). is_agent_call ev) \<longrightarrow>
       GetModel False m \<in> set (fst (main w p m u)))
     \<and> (GetModel b n \<in> set (fst (main w p m u)) \<longrightarrow> b = False \<and> n = m)"
  proof cases
    case none
    then show ?thesis
      using run_agent_first [of w p m "[]"]
      by (auto simp add: main_def is_agent_call_def)
  next
    case refused
    then show ?thesis
      by (simp add: main_def Let_def is_agent_call_def)
  next
    case unlisted
    then show ?thesis
      by (simp add: main_url with_body_def is_agent_call_def)
  next
    case listed
    then show ?thesis
      using run_agent_first [of w p m "map (\<lambda>d. to_function_tool d ?s False) ds"]
      by (auto simp add: main_url with_body_listed is_agent_call_def)
  qed
  then show
    "(\<exists>ev \<in> set (fst (main w p m u)). is_agent_call ev) \<longleftrightarrow>
       falsy u \<or> (aenter w ?s = None \<and> (\<exists>ds. list_tools w ?s = Inr ds))"
    "(\<exists>ev \<in> set (fst (main w p m u)). is_agent_call ev) \<longrightarrow>
       GetModel False m \<in> set (fst (main w p m u))"
    "GetModel b n \<in> set (fst (main w p m u)) \<longrightarrow> b = False \<and> n = m"
    by blast+
qed

lemma main_runs_agent:
  assumes "GetModel False m \<in> set (fst (main w p m u))" and "get_model w False m = Inr mdl"
  shows "\<exists>ts. RunnerRun \<lparr>name = ''Assistant'', agent_model = mdl, tools = ts\<rparr> p
           \<lparr>workflow_name = ''envoy-ai-gateway''\<rparr> \<in> set (fst (main w p m u))"
proof (cases "falsy u")
  case True
  then show ?thesis
    using run_agent_runs [OF assms(2), of "[]" p] by (auto simp add: main_def)
next
  case False
  let ?s = "streamable_http (the u)"
  have "\<exists>ev \<in> set (fst (main w p m u)). is_agent_call ev"
    using assms(1) by (rule bexI [rotated]) (simp add: is_agent_call_def)
  with False main_agent_calls(1) [of w p m u]
  obtain ds where "aenter w ?s = None" "list_tools w ?s = Inr ds"
    by blast
  then show ?thesis
    using False run_agent_runs [OF assms(2), of "map (\<lambda>d. to_function_tool d ?s False) ds" p]
    by (auto simp add: main_url with_body_listed)
qed

subsection \<open>The model name is passed through\<close>

text \<open>
  Claim C10. The script never inspects the model name. Once the arguments are parsed
  and the prompt is read, whether the agent runtime is called depends on the tool
  server alone (no URL, or a connection that opens and lists its tools), never on the
  model name; when it is called, the model is built from the resolved name as it is,
  and from no other name; and once the model is built the agent is run. With no
  \<^verbatim>\<open>--model\<close> flag and \<^verbatim>\<open>CHAT_MODEL\<close> unset the name is \<^verbatim>\<open>None\<close>, and the same
  holds.
\<close>

theorem model_name_not_validated:
  assumes "initialize w = None" and "parse_args w = Inr args"
    and "read w (prompt args) = Inr p"
  shows "((\<exists>ev \<in> set (fst (script w)). is_agent_call ev) \<longleftrightarrow>
            falsy (mcp_url args)
            \<or> (aenter w (streamable_http (the (mcp_url args))) = None
                \<and> (\<exists>ds. list_tools w (streamable_http (the (mcp_url args))) = Inr ds)))
       \<and> ((\<exists>ev \<in> set (fst (script w)). is_agent_call ev) \<longrightarrow>
            GetModel False (model args) \<in> set (fst (script w)))
       \<and> (\<forall>b n. GetModel b n \<in> set (fst (script w)) \<longrightarrow> n = model args)
       \<and> (\<forall>mdl. GetModel False (model args) \<in> set (fst (script w))
              \<and> get_model w False (model args) = Inr mdl \<longrightarrow>
            (\<exists>ts. RunnerRun \<lparr>name = ''Assistant'', agent_model = mdl, tools = ts\<rparr> p
                \<lparr>workflow_name = ''envoy-ai-gateway''\<rparr> \<in> set (fst (script w))))
       \<and> (\<forall>pp uf. argv w = ArgGiven pp None uf \<and> environ w ''CHAT_MODEL'' = None \<longrightarrow>
            model args = None)"
proof -
  let ?tr = "fst (main w p (model args) (mcp_url args))"
  have pre: "(\<exists>ev \<in> set (fst (script w)). is_agent_call ev) \<longleftrightarrow> (\<exists>ev \<in> set ?tr. is_agent_call ev)"
    and gm: "GetModel b n \<in> set (fst (script w)) \<longleftrightarrow> GetModel b n \<in> set ?tr"
    and rr: "RunnerRun a q c \<in> set (fst (script w)) \<longleftrightarrow> RunnerRun a q c \<in> set ?tr" for b n a q c
    by (auto simp add: script_started(1) [OF assms] is_agent_call_def)
  have absent: "\<forall>pp uf. argv w = ArgGiven pp None uf \<and> environ w ''CHAT_MODEL'' = None \<longrightarrow>
            model args = None"
    using assms(2) by (auto simp add: parse_args_def)
  show ?thesis
    using main_agent_calls [where w = w and p = p and m = "model args" and u = "mcp_url args"]
      main_runs_agent [of "model args" w p "mcp_url args"] absent
    unfolding pre gm rr by blast
qed

theorem model_name_not_validated_witness:
  "initialize (demo_world\<lparr>argv := ArgGiven None None None\<rparr>) = None
   \<and> parse_args (demo_world\<lparr>argv := ArgGiven None None None\<rparr>)
       = Inr \<lparr>prompt = Stdin, model = None, mcp_url = None\<rparr>
   \<and> falsy None
   \<and> GetModel False None \<in> set (fst (script (demo_world\<lparr>argv := ArgGiven None None None\<rparr>)))
   \<and> (\<exists>ts. RunnerRun \<lparr>name = ''Assistant'', agent_model = ''None'', tools = ts\<rparr> []
                \<lparr>workflow_name = ''envoy-ai-gateway''\<rparr>
         \<in> set (fst (script (demo_world\<lparr>argv := ArgGiven None None None\<rparr>))))"
proof -
  let ?w = "demo_world\<lparr>argv := ArgGiven None None None\<rparr>"
  let ?args = "\<lparr>prompt = Stdin, model = None, mcp_url = None\<rparr>"
  have h1: "initialize ?w = None"
    by (simp add: demo_world_def)
  have h2: "parse_args ?w = Inr ?args"
    by (simp add: demo_world_def parse_args_def)
  have h3: "read ?w (prompt ?args) = Inr []"
    by (simp add: demo_world_def)
  have f: "falsy (mcp_url ?args)" "falsy None"
    by (simp_all add: falsy_def)
  have mdl: "get_model ?w False (model ?args) = Inr ''None''"
    by (simp add: demo_world_def fstr_def)
  have sel: "model ?args = None"
    by simp
  from model_name_not_validated [OF h1 h2 h3] h1 h2 f mdl sel
  show ?thesis by metis
qed

end
